theory Spec2Isabelle
  imports Complex_Main
begin

section \<open>Kitchen Ingredient Recipe Finder: \<open>script.js\<close>\<close>

text \<open>
  The page script is event driven and single threaded. Each handler is modelled as a
  function on the state of the page; an \<open>async\<close> function is cut at each \<open>await\<close>
  into the part that runs when it is called and the part that runs when the awaited
  promise settles.

  A string is a list of code units; \<^typ>\<open>char\<close> holds the code units below 256, which
  covers every literal of the script and every label of the classifier.
\<close>

subsection \<open>JavaScript values that the script handles\<close>

text \<open>
  A number is an IEEE double: a finite value (read as the real number it denotes), one
  of the two infinities, or NaN. Only a comparison is applied to numbers.
\<close>

datatype number = NaN | NegInf | Fin real | PosInf

fun js_gt :: "number \<Rightarrow> number \<Rightarrow> bool" where
  "js_gt NaN _ = False"
| "js_gt _ NaN = False"
| "js_gt (Fin a) (Fin b) = (b < a)"
| "js_gt PosInf PosInf = False"
| "js_gt PosInf _ = True"
| "js_gt NegInf _ = False"
| "js_gt (Fin a) NegInf = True"
| "js_gt (Fin a) PosInf = False"

fun js_le :: "number \<Rightarrow> number \<Rightarrow> bool" where
  "js_le NaN _ = False"
| "js_le _ NaN = False"
| "js_le (Fin a) (Fin b) = (a \<le> b)"
| "js_le NegInf _ = True"
| "js_le PosInf PosInf = True"
| "js_le PosInf _ = False"
| "js_le (Fin a) NegInf = False"
| "js_le (Fin a) PosInf = True"

text \<open>
  The literal \<open>0.20\<close> of line 102 denotes the double nearest to one fifth, which is
  \<open>3602879701896397 / 2 ^ 54\<close>, slightly above one fifth.
\<close>

definition threshold :: real where
  "threshold = 3602879701896397 / 18014398509481984"

text \<open>
  What a property read \<open>ingredientMap[key]\<close> can give: \<open>undefined\<close>, a string, or a
  member that the object literal inherits from \<open>Object.prototype\<close> (a built-in
  function, or for \<open>__proto__\<close> the prototype object itself). \<open>Inherited n\<close> is the
  value of the inherited property named \<open>n\<close>; distinct names give distinct objects.
\<close>

datatype jsval = Undefined | Str string | Inherited string

fun truthy :: "jsval \<Rightarrow> bool" where
  "truthy Undefined = False"
| "truthy (Str s) = (s \<noteq> [])"
| "truthy (Inherited n) = True"

subsection \<open>Ingredient vocabulary (lines 18--48)\<close>

definition ingredientMap :: "(string \<times> string) list" where
  "ingredientMap =
    [(''banana'', ''banana''),
     (''Granny Smith'', ''apple''),
     (''strawberry'', ''strawberry''),
     (''orange'', ''orange''),
     (''lemon'', ''lemon''),
     (''pineapple'', ''pineapple''),
     (''cucumber'', ''cucumber''),
     (''carrot'', ''carrot''),
     (''broccoli'', ''broccoli''),
     (''cauliflower'', ''cauliflower''),
     (''bell pepper'', ''pepper''),
     (''chili pepper'', ''pepper''),
     (''jalapeno'', ''pepper''),
     (''potato'', ''potato''),
     (''cabbage'', ''cabbage''),
     (''lettuce'', ''lettuce''),
     (''mushroom'', ''mushroom''),
     (''garlic'', ''garlic''),
     (''ginger'', ''ginger''),
     (''onion'', ''onion''),
     (''egg'', ''egg''),
     (''bagel'', ''bread''),
     (''pretzel'', ''bread''),
     (''dough'', ''bread''),
     (''pizza'', ''pizza''),
     (''bacon'', ''bacon''),
     (''hotdog'', ''hot dog''),
     (''hamburger'', ''beef''),
     (''cheeseburger'', ''beef'')]"

text \<open>The canonical names: the value strings of the vocabulary.\<close>

definition vocabulary_values :: "jsval set" where
  "vocabulary_values = set (map (Str \<circ> snd) ingredientMap)"

text \<open>
  The properties of \<open>Object.prototype\<close> in a browser. An object literal has
  \<open>Object.prototype\<close> as its prototype, and a property read walks the prototype chain.
\<close>

definition object_prototype :: "string list" where
  "object_prototype =
    [''constructor'', ''hasOwnProperty'', ''isPrototypeOf'', ''propertyIsEnumerable'',
     ''toLocaleString'', ''toString'', ''valueOf'', ''__proto__'',
     ''__defineGetter__'', ''__defineSetter__'', ''__lookupGetter__'',
     ''__lookupSetter__'']"

text \<open>\<open>ingredientMap[key]\<close>: an own property first, then the prototype.\<close>

definition ingredientMap_get :: "string \<Rightarrow> jsval" where
  "ingredientMap_get key =
    (case map_of ingredientMap key of
       Some v \<Rightarrow> Str v
     | None \<Rightarrow> if key \<in> set object_prototype then Inherited key else Undefined)"

subsection \<open>String operations\<close>

text \<open>\<open>name.split(',')\<close>: the parts between commas; an empty string has one empty part.\<close>

fun split_from :: "string \<Rightarrow> string \<Rightarrow> string list" where
  "split_from acc [] = [acc]"
| "split_from acc (c # cs) =
    (if c = CHR '','' then acc # split_from [] cs else split_from (acc @ [c]) cs)"

definition split_comma :: "string \<Rightarrow> string list" where
  "split_comma name = split_from [] name"

text \<open>
  \<open>part.trim()\<close> removes white space and line terminators from both ends. Below 256
  these are TAB, LF, VT, FF, CR, SP and NBSP.
\<close>

definition is_space :: "char \<Rightarrow> bool" where
  "is_space c \<longleftrightarrow>
    c \<in> {CHR 0x09, CHR 0x0A, CHR 0x0B, CHR 0x0C, CHR 0x0D, CHR 0x20, CHR 0xA0}"

definition trim :: "string \<Rightarrow> string" where
  "trim s = rev (dropWhile is_space (rev (dropWhile is_space s)))"

subsection \<open>Label resolver (lines 95--106)\<close>

record prediction =
  className :: string
  probability :: number

text \<open>
  A \<open>Set\<close> keeps its elements in insertion order and ignores the insertion of an
  element that it holds: a list without repetition.
\<close>

definition set_add :: "'a \<Rightarrow> 'a list \<Rightarrow> 'a list" where
  "set_add x xs = (if x \<in> set xs then xs else xs @ [x])"

text \<open>The body of the \<open>for (const part of parts)\<close> loop.\<close>

definition add_part :: "prediction \<Rightarrow> jsval list \<Rightarrow> string \<Rightarrow> jsval list" where
  "add_part pred recognised part =
    (let trimmed = trim part in
     if truthy (ingredientMap_get trimmed) \<and> js_gt (probability pred) (Fin threshold)
     then set_add (ingredientMap_get trimmed) recognised
     else recognised)"

text \<open>The callback of \<open>predictions.forEach\<close>.\<close>

definition add_prediction :: "jsval list \<Rightarrow> prediction \<Rightarrow> jsval list" where
  "add_prediction recognised pred =
    (let name = className pred;
         parts = split_comma name
     in foldl (add_part pred) recognised parts)"

definition resolve :: "prediction list \<Rightarrow> jsval list" where
  "resolve predictions = foldl add_prediction [] predictions"

subsection \<open>Recipe service replies\<close>

text \<open>
  The value that \<open>response.json()\<close> resolves to. An object is the list of its own
  properties, each key once.
\<close>

datatype json =
  JNull | JBool bool | JNum real | JStr string | JArr "json list" | JObj "(string \<times> json) list"

text \<open>
  What the network gives for one request: \<open>fetch\<close> rejects (\<open>NoReply\<close>), or it
  resolves to a response with its \<open>ok\<close> flag and a body that \<open>response.json()\<close>
  parses or rejects.
\<close>

datatype body = Unparsable | Parsed json

datatype reply = NoReply | Reply bool body

datatype exn = FetchRejected | ApiRequestFailed | JsonRejected | TypeError

text \<open>
  A property read \<open>v.key\<close> on a parsed value, for the keys the script reads (\<open>meals\<close>,
  \<open>strMealThumb\<close>, \<open>strMeal\<close>, \<open>idMeal\<close>), none of which a built-in prototype
  defines. Reading a property of \<open>null\<close> throws; \<open>None\<close> is \<open>undefined\<close>.
\<close>

fun get_prop :: "json \<Rightarrow> string \<Rightarrow> exn + json option" where
  "get_prop JNull key = Inl TypeError"
| "get_prop (JObj props) key = Inr (map_of props key)"
| "get_prop _ key = Inr None"

fun json_truthy :: "json option \<Rightarrow> bool" where
  "json_truthy None = False"
| "json_truthy (Some JNull) = False"
| "json_truthy (Some (JBool b)) = b"
| "json_truthy (Some (JNum r)) = (r \<noteq> 0)"
| "json_truthy (Some (JStr s)) = (s \<noteq> [])"
| "json_truthy (Some (JArr xs)) = True"
| "json_truthy (Some (JObj props)) = True"

subsection \<open>The page\<close>

text \<open>
  A recipe card (lines 138--155) by the values assigned to it, each of which the
  assignment converts to a string: the image source and alternative text, the title,
  and the value that the link address carries after
  \<open>https://www.themealdb.com/meal.php?c=\<close>.
\<close>

record card =
  img_src :: "json option"
  img_alt :: "json option"
  title_text :: "json option"
  link_href_c :: "json option"

datatype entry = LogModelLoaded | LogNoRecipes jsval | ErrorFetching exn

text \<open>
  The state that the handlers read and write. \<open>model\<close> tells whether the variable
  holds a loaded model; \<open>files\<close> is \<open>imageUpload.files\<close>; \<open>ingredientList\<close> holds the text
  of each list item and \<open>recipesContainer\<close> the cards, in document order; \<open>alerts\<close>
  and \<open>console\<close> record the notices shown and the lines logged. \<open>loading\<close> counts the
  images whose \<open>onload\<close> handler is set and has not run, \<open>classifying\<close> the calls of
  \<open>model.classify\<close> that have not resolved; \<open>requests\<close> lists the ingredient of every
  \<open>fetch\<close> issued and \<open>fetching\<close> those of the calls of \<open>fetchRecipes\<close> that are
  suspended.
\<close>

record page =
  model :: bool
  files :: "string list"
  btn_disabled :: bool
  btn_text :: string
  ingredientList :: "jsval list"
  recipesContainer :: "card list"
  alerts :: "string list"
  console :: "entry list"
  loading :: nat
  classifying :: nat
  requests :: "jsval list"
  fetching :: "jsval list"

text \<open>
  The document before the script runs: no model, no file selected, nothing shown and
  nothing in flight.
\<close>

definition blank_page :: page where
  "blank_page =
    \<lparr>model = False, files = [], btn_disabled = False, btn_text = [],
     ingredientList = [], recipesContainer = [], alerts = [], console = [],
     loading = 0, classifying = 0, requests = [], fetching = []\<rparr>"

subsection \<open>Model loading (lines 51--58)\<close>

definition loadModel_start :: "page \<Rightarrow> page" where
  "loadModel_start s = s\<lparr>btn_disabled := True, btn_text := ''Loading model...''\<rparr>"

definition loadModel_resume :: "page \<Rightarrow> page" where
  "loadModel_resume s =
    s\<lparr>model := True, btn_text := ''Analyze Ingredients'', btn_disabled := False,
      console := console s @ [LogModelLoaded]\<rparr>"

subsection \<open>Recipe fetcher (lines 126--161)\<close>

text \<open>
  The conversion of a parsed value to a string, which the assignments of lines 141,
  142 and 146 and the template of line 148 apply. It throws for an object with an own
  property \<open>toString\<close>: that property is no function, so the conversion goes on to
  \<open>valueOf\<close>, which gives no primitive either. An array is joined, which converts each
  element other than \<open>null\<close>. Every other value converts.
\<close>

fun converts :: "json \<Rightarrow> bool" where
  "converts (JObj props) = (map_of props ''toString'' = None)"
| "converts (JArr xs) = (\<forall>x \<in> set xs. converts x)"
| "converts _ = True"

text \<open>
  The value of a property as it is assigned or interpolated: \<open>undefined\<close> converts;
  the card keeps the value, the string is not computed.
\<close>

definition convert :: "json option \<Rightarrow> exn + json option" where
  "convert v =
    (case v of
       None \<Rightarrow> Inr None
     | Some x \<Rightarrow> if converts x then Inr (Some x) else Inl TypeError)"

text \<open>
  The body of the callback of \<open>forEach\<close> up to \<open>appendChild\<close>: the card of a meal.
  Nothing is appended before it is complete.
\<close>

definition make_card :: "json \<Rightarrow> exn + card" where
  "make_card meal =
    (case get_prop meal ''strMealThumb'' of
       Inl e \<Rightarrow> Inl e
     | Inr thumb \<Rightarrow>
    (case convert thumb of
       Inl e \<Rightarrow> Inl e
     | Inr src \<Rightarrow>
    (case get_prop meal ''strMeal'' of
       Inl e \<Rightarrow> Inl e
     | Inr name \<Rightarrow>
    (case convert name of
       Inl e \<Rightarrow> Inl e
     | Inr alt \<Rightarrow>
    (case convert name of
       Inl e \<Rightarrow> Inl e
     | Inr title \<Rightarrow>
    (case get_prop meal ''idMeal'' of
       Inl e \<Rightarrow> Inl e
     | Inr ident \<Rightarrow>
    (case convert ident of
       Inl e \<Rightarrow> Inl e
     | Inr c \<Rightarrow>
        Inr \<lparr>img_src = src, img_alt = alt, title_text = title, link_href_c = c\<rparr>)))))))"

text \<open>
  A block that can throw returns the exception, if any, with the page as it is at that
  moment: what was appended before a throw stays appended.
\<close>

fun forEach_meal :: "json list \<Rightarrow> page \<Rightarrow> exn option \<times> page" where
  "forEach_meal [] s = (None, s)"
| "forEach_meal (meal # meals) s =
    (case make_card meal of
       Inl e \<Rightarrow> (Some e, s)
     | Inr c \<Rightarrow> forEach_meal meals (s\<lparr>recipesContainer := recipesContainer s @ [c]\<rparr>))"

text \<open>
  \<open>data.meals.slice(0, 3).forEach(...)\<close> for a truthy \<open>data.meals\<close>: only an array has
  both methods.
\<close>

fun slice_forEach :: "json option \<Rightarrow> page \<Rightarrow> exn option \<times> page" where
  "slice_forEach (Some (JArr meals)) s = forEach_meal (take 3 meals) s"
| "slice_forEach _ s = (Some TypeError, s)"

text \<open>
  The call of \<open>fetchRecipes\<close> up to its first \<open>await\<close>: the request is issued. The
  address is fixed by the ingredient, which stands for it.
\<close>

definition fetchRecipes_start :: "jsval \<Rightarrow> page \<Rightarrow> page" where
  "fetchRecipes_start ingredient s =
    s\<lparr>requests := requests s @ [ingredient], fetching := fetching s @ [ingredient]\<rparr>"

text \<open>
  The \<open>try\<close> block from the first \<open>await\<close> on. Between the two \<open>await\<close>s the function
  only tests \<open>response.ok\<close>, so both are taken in one step.
\<close>

definition fetchRecipes_try :: "jsval \<Rightarrow> reply \<Rightarrow> page \<Rightarrow> exn option \<times> page" where
  "fetchRecipes_try ingredient r s =
    (case r of
       NoReply \<Rightarrow> (Some FetchRejected, s)
     | Reply ok b \<Rightarrow>
        if \<not> ok then (Some ApiRequestFailed, s)
        else
          (case b of
             Unparsable \<Rightarrow> (Some JsonRejected, s)
           | Parsed data \<Rightarrow>
              (case get_prop data ''meals'' of
                 Inl e \<Rightarrow> (Some e, s)
               | Inr meals \<Rightarrow>
                  if \<not> json_truthy meals
                  then (None, s\<lparr>console := console s @ [LogNoRecipes ingredient]\<rparr>)
                  else slice_forEach meals s)))"

text \<open>
  The rest of \<open>fetchRecipes\<close> when the reply arrives, with its \<open>catch\<close>. The first
  component is the exception that leaves the function.
\<close>

definition fetchRecipes_resume :: "jsval \<Rightarrow> reply \<Rightarrow> page \<Rightarrow> exn option \<times> page" where
  "fetchRecipes_resume ingredient r s =
    (case fetchRecipes_try ingredient r (s\<lparr>fetching := remove1 ingredient (fetching s)\<rparr>) of
       (None, s') \<Rightarrow> (None, s')
     | (Some error, s') \<Rightarrow> (None, s'\<lparr>console := console s' @ [ErrorFetching error]\<rparr>))"

subsection \<open>Analyze handler (lines 72--123)\<close>

text \<open>The click handler: the two checks, then the start of an analysis.\<close>

definition analyze_click :: "page \<Rightarrow> page" where
  "analyze_click s =
    (if \<not> model s then s\<lparr>alerts := alerts s @ [''Model not loaded yet, please wait.'']\<rparr>
     else
       (case files s of
          [] \<Rightarrow> s\<lparr>alerts := alerts s @ [''Please upload an image first.'']\<rparr>
        | file # _ \<Rightarrow>
           s\<lparr>ingredientList := [], recipesContainer := [], btn_disabled := True,
             btn_text := ''Analyzing...'', loading := loading s + 1\<rparr>))"

text \<open>\<open>img.onload\<close> up to its \<open>await\<close>: the classifier is called.\<close>

definition img_onload_start :: "page \<Rightarrow> page" where
  "img_onload_start s = s\<lparr>loading := loading s - 1, classifying := classifying s + 1\<rparr>"

text \<open>
  The callback of \<open>recognised.forEach\<close> up to its \<open>await\<close>: the list item is appended
  and \<open>fetchRecipes\<close> is called.
\<close>

definition show_ingredient :: "page \<Rightarrow> jsval \<Rightarrow> page" where
  "show_ingredient s ingredient =
    fetchRecipes_start ingredient (s\<lparr>ingredientList := ingredientList s @ [ingredient]\<rparr>)"

text \<open>\<open>img.onload\<close> from the moment the predictions arrive.\<close>

definition img_onload_resume :: "prediction list \<Rightarrow> page \<Rightarrow> page" where
  "img_onload_resume predictions s0 =
    (let s = s0\<lparr>classifying := classifying s0 - 1\<rparr>;
         recognised = resolve predictions
     in if length recognised = 0
        then s\<lparr>ingredientList := [Str ''No recognizable ingredients found.''],
               btn_text := ''Analyze Ingredients'', btn_disabled := False\<rparr>
        else (foldl show_ingredient s recognised)
               \<lparr>btn_text := ''Analyze Ingredients'', btn_disabled := False\<rparr>)"

section \<open>Properties of the label resolver\<close>

lemma ingredientMap_get_cases:
  "ingredientMap_get key \<in> vocabulary_values
   \<or> (key \<in> set object_prototype \<and> ingredientMap_get key = Inherited key)
   \<or> ingredientMap_get key = Undefined"
proof (cases "map_of ingredientMap key")
  case None
  then show ?thesis by (simp add: ingredientMap_get_def)
next
  case (Some v)
  then have "(key, v) \<in> set ingredientMap" by (rule map_of_SomeD)
  then have "Str v \<in> vocabulary_values"
    unfolding vocabulary_values_def by force
  with Some show ?thesis by (simp add: ingredientMap_get_def)
qed

lemma add_part_not_gt:
  "\<not> js_gt (probability pred) (Fin threshold) \<Longrightarrow> add_part pred recognised part = recognised"
  by (simp add: add_part_def)

lemma foldl_add_part_not_gt:
  "\<not> js_gt (probability pred) (Fin threshold) \<Longrightarrow> foldl (add_part pred) recognised parts = recognised"
  by (induction parts arbitrary: recognised) (simp_all add: add_part_not_gt)

lemma add_prediction_not_gt:
  "\<not> js_gt (probability pred) (Fin threshold) \<Longrightarrow> add_prediction recognised pred = recognised"
  by (simp add: add_prediction_def foldl_add_part_not_gt)

lemma js_le_not_gt: "js_le a b \<Longrightarrow> \<not> js_gt a b"
  by (cases a; cases b) simp_all

lemma foldl_add_prediction_filter:
  "foldl add_prediction recognised predictions =
   foldl add_prediction recognised
     (filter (\<lambda>p. js_gt (probability p) (Fin threshold)) predictions)"
  by (induction predictions arbitrary: recognised) (simp_all add: add_prediction_not_gt)

lemma set_add_set: "set (set_add x xs) = insert x (set xs)"
  by (auto simp: set_add_def)

lemma set_add_part:
  "set (add_part pred recognised part) =
   set recognised \<union>
   (if truthy (ingredientMap_get (trim part)) \<and> js_gt (probability pred) (Fin threshold)
    then {ingredientMap_get (trim part)} else {})"
  by (simp add: add_part_def Let_def set_add_set)

lemma set_foldl_add_part:
  "set (foldl (add_part pred) recognised parts) =
   set recognised \<union>
   {ingredientMap_get (trim part) | part.
      part \<in> set parts \<and> truthy (ingredientMap_get (trim part))
      \<and> js_gt (probability pred) (Fin threshold)}"
proof (induction parts arbitrary: recognised)
  case Nil
  then show ?case by simp
next
  case (Cons a parts)
  show ?case
    unfolding foldl_Cons Cons.IH set_add_part by auto
qed

lemma set_add_prediction:
  "set (add_prediction recognised pred) =
   set recognised \<union>
   {ingredientMap_get (trim part) | part.
      part \<in> set (split_comma (className pred)) \<and> truthy (ingredientMap_get (trim part))
      \<and> js_gt (probability pred) (Fin threshold)}"
  by (simp add: add_prediction_def set_foldl_add_part)

lemma set_foldl_add_prediction:
  "set (foldl add_prediction recognised predictions) =
   set recognised \<union>
   {ingredientMap_get (trim part) | part pred.
      pred \<in> set predictions \<and> part \<in> set (split_comma (className pred))
      \<and> truthy (ingredientMap_get (trim part))
      \<and> js_gt (probability pred) (Fin threshold)}"
proof (induction predictions arbitrary: recognised)
  case Nil
  then show ?case by simp
next
  case (Cons p ps)
  show ?case
    unfolding foldl_Cons Cons.IH set_add_prediction by auto
qed

lemma set_resolve:
  "set (resolve predictions) =
   {ingredientMap_get (trim part) | part pred.
      pred \<in> set predictions \<and> part \<in> set (split_comma (className pred))
      \<and> truthy (ingredientMap_get (trim part))
      \<and> js_gt (probability pred) (Fin threshold)}"
  by (simp add: resolve_def set_foldl_add_prediction)

text \<open>
  Apart from the inherited members, the resolver yields canonical names only: when no
  trimmed part of a label is the name of a property of \<open>Object.prototype\<close>, every
  resolved element is a value of the vocabulary.
\<close>

lemma resolve_own_labels:
  assumes "\<forall>pred \<in> set predictions. \<forall>part \<in> set (split_comma (className pred)).
             trim part \<notin> set object_prototype"
  shows "set (resolve predictions) \<subseteq> vocabulary_values"
proof
  fix x assume "x \<in> set (resolve predictions)"
  then obtain part pred where x: "x = ingredientMap_get (trim part)"
    and p: "pred \<in> set predictions" "part \<in> set (split_comma (className pred))"
    and t: "truthy (ingredientMap_get (trim part))"
    unfolding set_resolve by blast
  from assms p have "trim part \<notin> set object_prototype" by blast
  with ingredientMap_get_cases [of "trim part"] t x show "x \<in> vocabulary_values"
    by auto
qed

lemma distinct_set_add: "distinct xs \<Longrightarrow> distinct (set_add x xs)"
  by (simp add: set_add_def)

lemma distinct_add_part: "distinct acc \<Longrightarrow> distinct (add_part p acc part)"
  by (simp add: add_part_def Let_def distinct_set_add)

lemma distinct_foldl_add_part: "distinct acc \<Longrightarrow> distinct (foldl (add_part p) acc parts)"
  by (induction parts arbitrary: acc) (simp_all add: distinct_add_part)

lemma distinct_add_prediction: "distinct acc \<Longrightarrow> distinct (add_prediction acc p)"
  by (simp add: add_prediction_def distinct_foldl_add_part)

lemma distinct_resolve: "distinct (resolve predictions)"
proof -
  have "distinct (foldl add_prediction acc ps)" if "distinct acc" for acc ps
    using that by (induction ps arbitrary: acc) (simp_all add: distinct_add_prediction)
  then show ?thesis by (simp add: resolve_def)
qed


lemma fifth_le_threshold: "r \<le> 1 / 5 \<Longrightarrow> js_le (Fin r) (Fin threshold)"
  by (simp add: threshold_def)

lemma concat_split_from:
  "concat (map ((#) CHR '','') (split_from acc cs)) = CHR '','' # acc @ cs"
  by (induction cs arbitrary: acc) simp_all

lemma split_from_no_comma:
  "CHR '','' \<notin> set acc \<Longrightarrow> \<forall>part \<in> set (split_from acc cs). CHR '','' \<notin> set part"
proof (induction cs arbitrary: acc)
  case Nil
  then show ?case by simp
next
  case (Cons c cs)
  show ?case
  proof (cases "c = CHR '',''")
    case True
    have "\<forall>part \<in> set (split_from [] cs). CHR '','' \<notin> set part"
      by (rule Cons.IH) simp
    with True Cons.prems show ?thesis by simp
  next
    case False
    have "\<forall>part \<in> set (split_from (acc @ [c]) cs). CHR '','' \<notin> set part"
      by (rule Cons.IH) (use False Cons.prems in simp)
    with False show ?thesis by simp
  qed
qed

lemma trim_decompose:
  "part = takeWhile is_space part @ trim part
          @ rev (takeWhile is_space (rev (dropWhile is_space part)))"
proof -
  let ?d = "dropWhile is_space part"
  have "rev (takeWhile is_space (rev ?d) @ dropWhile is_space (rev ?d))
        = rev (dropWhile is_space (rev ?d)) @ rev (takeWhile is_space (rev ?d))"
    by (rule rev_append)
  then have "?d = trim part @ rev (takeWhile is_space (rev ?d))"
    by (simp only: takeWhile_dropWhile_id rev_rev_ident trim_def)
  moreover have "part = takeWhile is_space part @ ?d"
    by simp
  ultimately show ?thesis by metis
qed

lemma trim_ends:
  assumes "trim part \<noteq> []"
  shows "\<not> is_space (hd (trim part)) \<and> \<not> is_space (last (trim part))"
proof -
  let ?d = "dropWhile is_space part"
  let ?e = "dropWhile is_space (rev ?d)"
  from assms have e: "?e \<noteq> []" by (simp add: trim_def)
  have d: "?d \<noteq> []"
  proof
    assume a: "?d = []"
    have "?e = []" unfolding a by simp
    with e show False by contradiction
  qed
  from e have "\<not> is_space (hd ?e)" by (rule hd_dropWhile)
  with e have l: "\<not> is_space (last (trim part))"
    by (simp add: trim_def last_rev)
  have "takeWhile is_space (rev ?d) @ ?e = rev ?d" by (rule takeWhile_dropWhile_id)
  with e have "last (rev ?d) = last ?e" by (metis last_appendR)
  with d e have "hd (trim part) = hd ?d"
    by (simp add: trim_def hd_rev last_rev)
  moreover from d have "\<not> is_space (hd ?d)" by (rule hd_dropWhile)
  ultimately have "\<not> is_space (hd (trim part))" by simp
  with l show ?thesis by simp
qed


lemma ingredientMap_get_exact:
  "ingredientMap_get key \<in> vocabulary_values \<longleftrightarrow> key \<in> fst ` set ingredientMap"
proof (cases "map_of ingredientMap key")
  case None
  then have "key \<notin> fst ` set ingredientMap"
    by (simp add: map_of_eq_None_iff)
  moreover have "ingredientMap_get key \<notin> vocabulary_values"
    using None by (auto simp: ingredientMap_get_def vocabulary_values_def)
  ultimately show ?thesis by simp
next
  case (Some v)
  then have "(key, v) \<in> set ingredientMap" by (rule map_of_SomeD)
  then have "key \<in> fst ` set ingredientMap" and "Str v \<in> vocabulary_values"
    unfolding vocabulary_values_def by force+
  with Some show ?thesis by (simp add: ingredientMap_get_def)
qed

text \<open>
  Claim C1: every element of the resolved set is one of the value strings of the
  vocabulary, for every prediction sequence. The lookup of line 102 reads
  \<open>ingredientMap[trimmed]\<close> on an object literal, so a label part such as
  \<open>constructor\<close> finds the member inherited from \<open>Object.prototype\<close>, which is truthy:
  the resolver adds that member, which is no value of the vocabulary.
\<close>

theorem resolve_constructor_label:
  "resolve [\<lparr>className = ''constructor'', probability = Fin 0.9\<rparr>] = [Inherited ''constructor'']
   \<and> Inherited ''constructor'' \<notin> vocabulary_values"
proof
  show "resolve [\<lparr>className = ''constructor'', probability = Fin 0.9\<rparr>]
        = [Inherited ''constructor'']"
    by (simp add: resolve_def add_prediction_def split_comma_def add_part_def trim_def
        is_space_def ingredientMap_get_def ingredientMap_def object_prototype_def
        set_add_def threshold_def)
  show "Inherited ''constructor'' \<notin> vocabulary_values"
    by (auto simp: vocabulary_values_def)
qed

text \<open>
  Claim C2: a prediction whose confidence is at or below the threshold contributes
  nothing to the resolved set, whatever its label: the callback leaves the set as it
  is, and the resolved set is the same with the prediction removed from the sequence.
  Only predictions whose confidence is greater than the threshold contribute: the
  resolved set is that of the sequence restricted to them. (A confidence of at most one
  fifth is at or below the threshold, by \<open>fifth_le_threshold\<close>.)
\<close>

theorem below_threshold_contributes_nothing:
  "(js_le (probability pred) (Fin threshold) \<longrightarrow>
      add_prediction recognised pred = recognised
      \<and> resolve (before @ pred # after) = resolve (before @ after))
   \<and> resolve predictions =
       resolve (filter (\<lambda>p. js_gt (probability p) (Fin threshold)) predictions)"
proof (intro conjI impI)
  assume le: "js_le (probability pred) (Fin threshold)"
  then have ngt: "\<not> js_gt (probability pred) (Fin threshold)"
    by (rule js_le_not_gt)
  then show "add_prediction recognised pred = recognised"
    by (rule add_prediction_not_gt)
  show "resolve (before @ pred # after) = resolve (before @ after)"
    by (simp add: resolve_def add_prediction_not_gt [OF ngt])
next
  show "resolve predictions =
        resolve (filter (\<lambda>p. js_gt (probability p) (Fin threshold)) predictions)"
    unfolding resolve_def by (rule foldl_add_prediction_filter)
qed

theorem below_threshold_contributes_nothing_witness:
  "js_le (Fin 0.1) (Fin threshold)
   \<and> add_prediction [Str ''banana''] \<lparr>className = ''lemon'', probability = Fin 0.1\<rparr>
       = [Str ''banana'']
   \<and> resolve [\<lparr>className = ''banana'', probability = Fin 0.9\<rparr>,
              \<lparr>className = ''lemon'', probability = Fin 0.1\<rparr>]
       = resolve [\<lparr>className = ''banana'', probability = Fin 0.9\<rparr>]"
proof -
  have h: "js_le (probability \<lparr>className = ''lemon'', probability = Fin 0.1\<rparr>) (Fin threshold)"
    by (simp add: threshold_def)
  show ?thesis
    using h below_threshold_contributes_nothing
      [of "\<lparr>className = ''lemon'', probability = Fin 0.1\<rparr>" "[Str ''banana'']"
          "[\<lparr>className = ''banana'', probability = Fin 0.9\<rparr>]" "[]" "[]"]
    by simp
qed

text \<open>
  Claim C3: the resolver splits each considered label on commas and trims each part
  before the exact lookup. In general, the resolved set holds exactly the values found
  for the trimmed parts of the labels whose confidence is above the threshold; the
  parts of a label are its pieces between the commas (joined by commas they give the
  label back, and none holds a comma); a trimmed part is the part without the white
  space at its two ends; and the lookup gives a canonical name exactly for a key of the
  vocabulary. The label \<open>bagel, roll, bun\<close> with confidence 0.5 resolves to exactly
  \<open>bread\<close>; the predictions \<open>banana\<close> (0.9), \<open>Granny Smith\<close> (0.5) and \<open>lemon\<close> (0.1)
  resolve to exactly \<open>banana\<close> and \<open>apple\<close>. A part after the first, with white space
  around it, is found as well, and a key in another case or with a suffix is not.
\<close>

theorem resolve_splits_trims_looks_up:
  "set (resolve predictions) =
     {ingredientMap_get (trim part) | part pred.
        pred \<in> set predictions \<and> part \<in> set (split_comma (className pred))
        \<and> truthy (ingredientMap_get (trim part))
        \<and> js_gt (probability pred) (Fin threshold)}
   \<and> concat (map ((#) CHR '','') (split_comma name)) = CHR '','' # name
   \<and> (\<forall>p \<in> set (split_comma name). CHR '','' \<notin> set p)
   \<and> (\<exists>before after. part = before @ trim part @ after
         \<and> (\<forall>c \<in> set before. is_space c) \<and> (\<forall>c \<in> set after. is_space c))
   \<and> (trim part \<noteq> [] \<longrightarrow> \<not> is_space (hd (trim part)) \<and> \<not> is_space (last (trim part)))
   \<and> (ingredientMap_get key \<in> vocabulary_values \<longleftrightarrow> key \<in> fst ` set ingredientMap)
   \<and> resolve [\<lparr>className = ''bagel, roll, bun'', probability = Fin 0.5\<rparr>] = [Str ''bread'']
   \<and> resolve [\<lparr>className = ''banana'', probability = Fin 0.9\<rparr>,
              \<lparr>className = ''Granny Smith'', probability = Fin 0.5\<rparr>,
              \<lparr>className = ''lemon'', probability = Fin 0.1\<rparr>]
       = [Str ''banana'', Str ''apple'']
   \<and> set (resolve [\<lparr>className = ''banana'', probability = Fin 0.9\<rparr>,
                   \<lparr>className = ''Granny Smith'', probability = Fin 0.5\<rparr>,
                   \<lparr>className = ''lemon'', probability = Fin 0.1\<rparr>])
       = {Str ''banana'', Str ''apple''}
   \<and> resolve [\<lparr>className = ''roll ,  bagel '', probability = Fin 0.5\<rparr>] = [Str ''bread'']
   \<and> resolve [\<lparr>className = ''Bagel, bagels'', probability = Fin 0.5\<rparr>] = []"
proof -
  have general: "set (resolve predictions) =
     {ingredientMap_get (trim part) | part pred.
        pred \<in> set predictions \<and> part \<in> set (split_comma (className pred))
        \<and> truthy (ingredientMap_get (trim part))
        \<and> js_gt (probability pred) (Fin threshold)}"
    by (rule set_resolve)
  have join: "concat (map ((#) CHR '','') (split_comma name)) = CHR '','' # name"
    by (simp add: split_comma_def concat_split_from)
  have parts: "\<forall>p \<in> set (split_comma name). CHR '','' \<notin> set p"
    unfolding split_comma_def by (rule split_from_no_comma) simp
  have "part = takeWhile is_space part @ trim part
          @ rev (takeWhile is_space (rev (dropWhile is_space part)))
     \<and> (\<forall>c \<in> set (takeWhile is_space part). is_space c)
     \<and> (\<forall>c \<in> set (rev (takeWhile is_space (rev (dropWhile is_space part)))). is_space c)"
    using trim_decompose [of part] by (auto dest: set_takeWhileD)
  then have around: "\<exists>before after. part = before @ trim part @ after
         \<and> (\<forall>c \<in> set before. is_space c) \<and> (\<forall>c \<in> set after. is_space c)"
    by blast
  have ends: "trim part \<noteq> [] \<longrightarrow>
      \<not> is_space (hd (trim part)) \<and> \<not> is_space (last (trim part))"
    using trim_ends [of part] by blast
  have exact: "ingredientMap_get key \<in> vocabulary_values \<longleftrightarrow> key \<in> fst ` set ingredientMap"
    by (rule ingredientMap_get_exact)
  have s1: "resolve [\<lparr>className = ''bagel, roll, bun'', probability = Fin 0.5\<rparr>]
      = [Str ''bread'']"
    by (simp add: resolve_def add_prediction_def split_comma_def add_part_def trim_def
        is_space_def ingredientMap_get_def ingredientMap_def object_prototype_def
        set_add_def threshold_def)
  have s2: "resolve [\<lparr>className = ''banana'', probability = Fin 0.9\<rparr>,
              \<lparr>className = ''Granny Smith'', probability = Fin 0.5\<rparr>,
              \<lparr>className = ''lemon'', probability = Fin 0.1\<rparr>]
       = [Str ''banana'', Str ''apple'']"
    by (simp add: resolve_def add_prediction_def split_comma_def add_part_def trim_def
        is_space_def ingredientMap_get_def ingredientMap_def object_prototype_def
        set_add_def threshold_def)
  have s3: "set (resolve [\<lparr>className = ''banana'', probability = Fin 0.9\<rparr>,
                   \<lparr>className = ''Granny Smith'', probability = Fin 0.5\<rparr>,
                   \<lparr>className = ''lemon'', probability = Fin 0.1\<rparr>])
       = {Str ''banana'', Str ''apple''}"
    unfolding s2 by simp
  have s4: "resolve [\<lparr>className = ''roll ,  bagel '', probability = Fin 0.5\<rparr>]
      = [Str ''bread'']"
    by (simp add: resolve_def add_prediction_def split_comma_def add_part_def trim_def
        is_space_def ingredientMap_get_def ingredientMap_def object_prototype_def
        set_add_def threshold_def)
  have s5: "resolve [\<lparr>className = ''Bagel, bagels'', probability = Fin 0.5\<rparr>] = []"
    by (simp add: resolve_def add_prediction_def split_comma_def add_part_def trim_def
        is_space_def ingredientMap_get_def ingredientMap_def object_prototype_def
        set_add_def threshold_def)
  from general join parts around ends exact s1 s2 s3 s4 s5 show ?thesis
    by (intro conjI)
qed

theorem resolve_splits_trims_looks_up_witness:
  "set (resolve [\<lparr>className = ''roll ,  bagel '', probability = Fin 0.5\<rparr>]) = {Str ''bread''}
   \<and> split_comma ''roll ,  bagel '' = [''roll '', ''  bagel '']
   \<and> trim ''  bagel '' = ''bagel''
   \<and> ingredientMap_get ''bagel'' = Str ''bread''
   \<and> ''bagel'' \<in> fst ` set ingredientMap"
  using resolve_splits_trims_looks_up
    [of "[\<lparr>className = ''roll ,  bagel '', probability = Fin 0.5\<rparr>]" "''roll ,  bagel ''"
        "''  bagel ''" "''bagel''"]
  by (simp add: split_comma_def trim_def is_space_def ingredientMap_get_def ingredientMap_def)

section \<open>Properties of the recipe fetcher\<close>

lemma make_card_null: "make_card JNull = Inl TypeError"
  by (simp add: make_card_def)

lemma make_card_own_toString:
  "make_card (JObj [(''strMeal'', JObj [(''toString'', JNull)])]) = Inl TypeError"
  by (simp add: make_card_def convert_def)

lemma make_card_record:
  assumes "meal \<noteq> JNull"
    and "\<forall>key \<in> {''strMealThumb'', ''strMeal'', ''idMeal''}.
           \<forall>v. get_prop meal key = Inr (Some v) \<longrightarrow> converts v"
  shows "\<exists>thumb name ident.
           get_prop meal ''strMealThumb'' = Inr thumb
           \<and> get_prop meal ''strMeal'' = Inr name
           \<and> get_prop meal ''idMeal'' = Inr ident
           \<and> make_card meal =
               Inr \<lparr>img_src = thumb, img_alt = name, title_text = name,
                    link_href_c = ident\<rparr>"
  using assms
  by (cases meal) (auto simp: make_card_def convert_def split: option.splits)

lemma forEach_meal_shape:
  "\<exists>n cards e. n \<le> length meals \<and> map make_card (take n meals) = map Inr cards
     \<and> ((\<forall>m \<in> set meals. \<exists>c. make_card m = Inr c) \<longrightarrow> n = length meals \<and> e = None)
     \<and> (\<forall>s. forEach_meal meals s = (e, s\<lparr>recipesContainer := recipesContainer s @ cards\<rparr>))"
proof (induction meals)
  case Nil
  have "0 \<le> length ([]::json list) \<and> map make_card (take 0 []) = map Inr []
     \<and> ((\<forall>m \<in> set ([]::json list). \<exists>c. make_card m = Inr c) \<longrightarrow> 0 = length ([]::json list) \<and> None = (None::exn option))
     \<and> (\<forall>s. forEach_meal [] s = (None, s\<lparr>recipesContainer := recipesContainer s @ []\<rparr>))"
    by simp
  then show ?case by blast
next
  case (Cons meal meals)
  show ?case
  proof (cases "make_card meal")
    case (Inl e)
    have "0 \<le> length (meal # meals) \<and> map make_card (take 0 (meal # meals)) = map Inr []
       \<and> ((\<forall>m \<in> set (meal # meals). \<exists>c. make_card m = Inr c) \<longrightarrow> 0 = length (meal # meals) \<and> Some e = None)
       \<and> (\<forall>s. forEach_meal (meal # meals) s
              = (Some e, s\<lparr>recipesContainer := recipesContainer s @ []\<rparr>))"
      using Inl by simp
    then show ?thesis by blast
  next
    case (Inr c)
    from Cons.IH obtain n cards e where
      n: "n \<le> length meals" and
      m: "map make_card (take n meals) = map Inr cards" and
      t: "(\<forall>m \<in> set meals. \<exists>c. make_card m = Inr c) \<longrightarrow> n = length meals \<and> e = None" and
      f: "\<And>s. forEach_meal meals s = (e, s\<lparr>recipesContainer := recipesContainer s @ cards\<rparr>)"
      by blast
    have "Suc n \<le> length (meal # meals)
       \<and> map make_card (take (Suc n) (meal # meals)) = map Inr (c # cards)
       \<and> ((\<forall>m \<in> set (meal # meals). \<exists>c. make_card m = Inr c) \<longrightarrow> Suc n = length (meal # meals) \<and> e = None)
       \<and> (\<forall>s. forEach_meal (meal # meals) s
              = (e, s\<lparr>recipesContainer := recipesContainer s @ c # cards\<rparr>))"
      using n m t Inr by (simp add: f)
    then show ?thesis by blast
  qed
qed

lemma catch_shape:
  assumes "\<And>s. fetchRecipes_try i r s
             = (e, s\<lparr>recipesContainer := recipesContainer s @ cards,
                     console := console s @ logs\<rparr>)"
  shows "\<exists>logs'. (e = None \<longrightarrow> logs' = logs) \<and> (\<forall>x. e = Some x \<longrightarrow> logs' = logs @ [ErrorFetching x]) \<and> (\<forall>s. fetchRecipes_resume i r s
           = (None, s\<lparr>fetching := remove1 i (fetching s),
                      recipesContainer := recipesContainer s @ cards,
                      console := console s @ logs'\<rparr>))"
proof (cases e)
  case None
  then show ?thesis by (simp add: fetchRecipes_resume_def assms)
next
  case (Some x)
  then show ?thesis by (simp add: fetchRecipes_resume_def assms)
qed


lemma slice_forEach_array:
  "\<exists>n cards e. n \<le> 3 \<and> n \<le> length meals \<and> map make_card (take n meals) = map Inr cards
     \<and> ((\<forall>m \<in> set (take 3 meals). \<exists>c. make_card m = Inr c) \<longrightarrow> n = min 3 (length meals) \<and> e = None)
     \<and> (\<forall>s. slice_forEach (Some (JArr meals)) s
            = (e, s\<lparr>recipesContainer := recipesContainer s @ cards\<rparr>))"
proof -
  from forEach_meal_shape [of "take 3 meals"] obtain n cards e where
    n: "n \<le> length (take 3 meals)" and
    m: "map make_card (take n (take 3 meals)) = map Inr cards" and
    t: "(\<forall>m \<in> set (take 3 meals). \<exists>c. make_card m = Inr c) \<longrightarrow> n = length (take 3 meals) \<and> e = None" and
    f: "\<And>s. forEach_meal (take 3 meals) s
          = (e, s\<lparr>recipesContainer := recipesContainer s @ cards\<rparr>)"
    by blast
  from n have n3: "n \<le> 3" and nl: "n \<le> length meals" by simp_all
  from n3 have "take n (take 3 meals) = take n meals" by (simp add: min_def)
  with m have m': "map make_card (take n meals) = map Inr cards" by simp
  from t have t': "(\<forall>m \<in> set (take 3 meals). \<exists>c. make_card m = Inr c) \<longrightarrow> n = min 3 (length meals) \<and> e = None"
    by (simp add: min_def)
  have "n \<le> 3 \<and> n \<le> length meals \<and> map make_card (take n meals) = map Inr cards
     \<and> ((\<forall>m \<in> set (take 3 meals). \<exists>c. make_card m = Inr c) \<longrightarrow>
          n = min 3 (length meals) \<and> e = None)
     \<and> (\<forall>s. slice_forEach (Some (JArr meals)) s
            = (e, s\<lparr>recipesContainer := recipesContainer s @ cards\<rparr>))"
    using n3 nl m' t' f by simp
  then show ?thesis by blast
qed

lemma slice_forEach_shape:
  "\<exists>cards e. length cards \<le> 3
     \<and> (\<forall>s. slice_forEach meals s = (e, s\<lparr>recipesContainer := recipesContainer s @ cards\<rparr>))"
proof -
  have other: "\<exists>cards e. length cards \<le> 3
     \<and> (\<forall>s. slice_forEach meals s = (e, s\<lparr>recipesContainer := recipesContainer s @ cards\<rparr>))"
    if "\<And>s. slice_forEach meals s = (Some TypeError, s)"
  proof -
    have "length ([]::card list) \<le> 3
      \<and> (\<forall>s. slice_forEach meals s
             = (Some TypeError, s\<lparr>recipesContainer := recipesContainer s @ []\<rparr>))"
      by (simp add: that)
    then show ?thesis by blast
  qed
  show ?thesis
  proof (cases meals)
    case None
    then show ?thesis by (intro other) simp
  next
    case (Some v)
    show ?thesis
    proof (cases v)
      case (JArr ms)
      from slice_forEach_array [of ms] obtain n cards e where
        n: "n \<le> 3" and
        m: "map make_card (take n ms) = map Inr cards" and
        f: "\<And>s. slice_forEach (Some (JArr ms)) s
              = (e, s\<lparr>recipesContainer := recipesContainer s @ cards\<rparr>)"
        by blast
      from m have "length cards = length (take n ms)"
        by (metis length_map)
      with n have "length cards \<le> 3" by simp
      with f Some JArr show ?thesis by auto
    qed (use Some in \<open>intro other; simp\<close>)+
  qed
qed

lemma fetchRecipes_try_shape:
  "\<exists>cards logs e. length cards \<le> 3
     \<and> (\<forall>s. fetchRecipes_try i r s
            = (e, s\<lparr>recipesContainer := recipesContainer s @ cards,
                    console := console s @ logs\<rparr>))"
proof -
  have thrown: "\<exists>cards logs e. length cards \<le> 3
     \<and> (\<forall>s. fetchRecipes_try i r s
            = (e, s\<lparr>recipesContainer := recipesContainer s @ cards,
                    console := console s @ logs\<rparr>))"
    if "\<And>s. fetchRecipes_try i r s = (Some x, s)" for x
  proof -
    have "length ([]::card list) \<le> 3
     \<and> (\<forall>s. fetchRecipes_try i r s
            = (Some x, s\<lparr>recipesContainer := recipesContainer s @ [],
                    console := console s @ []\<rparr>))"
      by (simp add: that)
    then show ?thesis by blast
  qed
  show ?thesis
  proof (cases r)
    case NoReply
    then show ?thesis by (intro thrown [of FetchRejected]) (simp add: fetchRecipes_try_def)
  next
    case (Reply ok b)
    show ?thesis
    proof (cases ok)
      case False
      with Reply show ?thesis
        by (intro thrown [of ApiRequestFailed]) (simp add: fetchRecipes_try_def)
    next
      case True
      show ?thesis
      proof (cases b)
        case Unparsable
        with Reply True show ?thesis
          by (intro thrown [of JsonRejected]) (simp add: fetchRecipes_try_def)
      next
        case (Parsed data)
        show ?thesis
        proof (cases "get_prop data ''meals''")
          case (Inl x)
          with Reply True Parsed show ?thesis
            by (intro thrown [of x]) (simp add: fetchRecipes_try_def)
        next
          case (Inr meals)
          show ?thesis
          proof (cases "json_truthy meals")
            case False
            have "length ([]::card list) \<le> 3
              \<and> (\<forall>s. fetchRecipes_try i r s
                  = (None, s\<lparr>recipesContainer := recipesContainer s @ [],
                         console := console s @ [LogNoRecipes i]\<rparr>))"
              using Reply True Parsed Inr False by (simp add: fetchRecipes_try_def)
            then show ?thesis by blast
          next
            case truthy: True
            from slice_forEach_shape [of meals] obtain cards e where
              l: "length cards \<le> 3" and
              f: "\<And>s. slice_forEach meals s
                    = (e, s\<lparr>recipesContainer := recipesContainer s @ cards\<rparr>)"
              by blast
            have "length cards \<le> 3
              \<and> (\<forall>s. fetchRecipes_try i r s
                  = (e, s\<lparr>recipesContainer := recipesContainer s @ cards,
                         console := console s @ []\<rparr>))"
              using Reply True Parsed Inr truthy l by (simp add: fetchRecipes_try_def f)
            then show ?thesis by blast
          qed
        qed
      qed
    qed
  qed
qed

lemma fetchRecipes_resume_shape:
  "\<exists>cards logs. length cards \<le> 3
     \<and> (\<forall>s. fetchRecipes_resume i r s
            = (None, s\<lparr>fetching := remove1 i (fetching s),
                       recipesContainer := recipesContainer s @ cards,
                       console := console s @ logs\<rparr>))"
proof -
  from fetchRecipes_try_shape [of i r] obtain cards logs e where
    l: "length cards \<le> 3" and
    f: "\<And>s. fetchRecipes_try i r s
          = (e, s\<lparr>recipesContainer := recipesContainer s @ cards,
                  console := console s @ logs\<rparr>)"
    by blast
  from catch_shape [OF f] l show ?thesis by blast
qed

lemma foldl_show_ingredient:
  "foldl show_ingredient s recognised =
   s\<lparr>ingredientList := ingredientList s @ recognised,
     requests := requests s @ recognised,
     fetching := fetching s @ recognised\<rparr>"
  by (induction recognised arbitrary: s)
     (simp_all add: show_ingredient_def fetchRecipes_start_def)

lemma img_onload_resume_empty:
  "resolve predictions = [] \<Longrightarrow>
   img_onload_resume predictions s =
   s\<lparr>classifying := classifying s - 1,
     ingredientList := [Str ''No recognizable ingredients found.''],
     btn_text := ''Analyze Ingredients'', btn_disabled := False\<rparr>"
  by (simp add: img_onload_resume_def)

lemma img_onload_resume_nonempty:
  "resolve predictions \<noteq> [] \<Longrightarrow>
   img_onload_resume predictions s =
   s\<lparr>classifying := classifying s - 1,
     ingredientList := ingredientList s @ resolve predictions,
     requests := requests s @ resolve predictions,
     fetching := fetching s @ resolve predictions,
     btn_text := ''Analyze Ingredients'', btn_disabled := False\<rparr>"
  by (simp add: img_onload_resume_def Let_def foldl_show_ingredient)

lemma img_onload_resume_enabled:
  "\<not> btn_disabled (img_onload_resume predictions s)"
  by (cases "resolve predictions = []")
     (simp_all add: img_onload_resume_empty img_onload_resume_nonempty)

lemma fetchRecipes_resume_failure:
  "fetchRecipes_resume i NoReply s =
     (None, s\<lparr>fetching := remove1 i (fetching s),
               console := console s @ [ErrorFetching FetchRejected]\<rparr>)"
  "fetchRecipes_resume i (Reply False b) s =
     (None, s\<lparr>fetching := remove1 i (fetching s),
               console := console s @ [ErrorFetching ApiRequestFailed]\<rparr>)"
  "fetchRecipes_resume i (Reply True Unparsable) s =
     (None, s\<lparr>fetching := remove1 i (fetching s),
               console := console s @ [ErrorFetching JsonRejected]\<rparr>)"
  by (simp_all add: fetchRecipes_resume_def fetchRecipes_try_def)

lemma fetchRecipes_resume_no_results:
  "get_prop data ''meals'' = Inr meals \<Longrightarrow> \<not> json_truthy meals \<Longrightarrow>
   fetchRecipes_resume i (Reply True (Parsed data)) s =
     (None, s\<lparr>fetching := remove1 i (fetching s),
               console := console s @ [LogNoRecipes i]\<rparr>)"
  by (simp add: fetchRecipes_resume_def fetchRecipes_try_def)

lemma fetchRecipes_resume_array:
  assumes "get_prop data ''meals'' = Inr (Some (JArr meals))"
  shows "\<exists>n cards logs. n \<le> 3 \<and> n \<le> length meals
     \<and> map make_card (take n meals) = map Inr cards
     \<and> ((\<forall>m \<in> set (take 3 meals). \<exists>c. make_card m = Inr c) \<longrightarrow> n = min 3 (length meals) \<and> logs = [])
     \<and> (\<forall>s. fetchRecipes_resume i (Reply True (Parsed data)) s
            = (None, s\<lparr>fetching := remove1 i (fetching s),
                       recipesContainer := recipesContainer s @ cards,
                       console := console s @ logs\<rparr>))"
proof -
  from slice_forEach_array [of meals] obtain n cards e where
    n: "n \<le> 3" "n \<le> length meals" and
    m: "map make_card (take n meals) = map Inr cards" and
    t: "(\<forall>m \<in> set (take 3 meals). \<exists>c. make_card m = Inr c) \<longrightarrow> n = min 3 (length meals) \<and> e = None" and
    f: "\<And>s. slice_forEach (Some (JArr meals)) s
          = (e, s\<lparr>recipesContainer := recipesContainer s @ cards\<rparr>)"
    by blast
  have body: "fetchRecipes_try i (Reply True (Parsed data)) s
      = (e, s\<lparr>recipesContainer := recipesContainer s @ cards,
              console := console s @ []\<rparr>)" for s
    using assms f by (simp add: fetchRecipes_try_def)
  from catch_shape [OF body] obtain logs where
    l: "e = None \<longrightarrow> logs = []" and
    r: "\<And>s. fetchRecipes_resume i (Reply True (Parsed data)) s
          = (None, s\<lparr>fetching := remove1 i (fetching s),
                     recipesContainer := recipesContainer s @ cards,
                     console := console s @ logs\<rparr>)"
    by blast
  from n m t l r show ?thesis by blast
qed

text \<open>
  Claim C4: for a response whose \<open>meals\<close> is a list, the fetcher appends at most 3
  cards, and they are the cards of the first entries of the list in the order of the
  list. When each of the first three entries is a recipe record (it is not \<open>null\<close>, and
  its thumbnail, name and identifier convert to strings), the cards are exactly those
  of the first three entries, so 6 matches give exactly 3 cards.
\<close>

theorem fetchRecipes_first_three:
  assumes "get_prop data ''meals'' = Inr (Some (JArr meals))"
  shows "\<exists>n cards. n \<le> 3 \<and> map make_card (take n meals) = map Inr cards
     \<and> length cards \<le> 3
     \<and> recipesContainer (snd (fetchRecipes_resume i (Reply True (Parsed data)) s))
         = recipesContainer s @ cards
     \<and> ((\<forall>meal \<in> set (take 3 meals). meal \<noteq> JNull
            \<and> (\<forall>key \<in> {''strMealThumb'', ''strMeal'', ''idMeal''}.
                  \<forall>v. get_prop meal key = Inr (Some v) \<longrightarrow> converts v)) \<longrightarrow>
          map make_card (take 3 meals) = map Inr cards
          \<and> (length meals = 6 \<longrightarrow> length cards = 3))"
proof -
  from fetchRecipes_resume_array [OF assms, of i] obtain n cards logs where
    n: "n \<le> 3" "n \<le> length meals" and
    m: "map make_card (take n meals) = map Inr cards" and
    t: "(\<forall>m \<in> set (take 3 meals). \<exists>c. make_card m = Inr c) \<longrightarrow>
          n = min 3 (length meals) \<and> logs = []" and
    r: "\<And>s. fetchRecipes_resume i (Reply True (Parsed data)) s
          = (None, s\<lparr>fetching := remove1 i (fetching s),
                     recipesContainer := recipesContainer s @ cards,
                     console := console s @ logs\<rparr>)"
    by blast
  from m have len: "length cards = length (take n meals)"
    by (metis length_map)
  with n have l3: "length cards \<le> 3" by simp
  have rc: "recipesContainer (snd (fetchRecipes_resume i (Reply True (Parsed data)) s))
         = recipesContainer s @ cards"
    by (simp add: r)
  have full: "map make_card (take 3 meals) = map Inr cards
          \<and> (length meals = 6 \<longrightarrow> length cards = 3)"
    if records: "(\<forall>meal \<in> set (take 3 meals). meal \<noteq> JNull
            \<and> (\<forall>key \<in> {''strMealThumb'', ''strMeal'', ''idMeal''}.
                  \<forall>v. get_prop meal key = Inr (Some v) \<longrightarrow> converts v))"
  proof -
    have "\<forall>m \<in> set (take 3 meals). \<exists>c. make_card m = Inr c"
    proof
      fix m assume "m \<in> set (take 3 meals)"
      with records have "m \<noteq> JNull"
        and "\<forall>key \<in> {''strMealThumb'', ''strMeal'', ''idMeal''}.
               \<forall>v. get_prop m key = Inr (Some v) \<longrightarrow> converts v"
        by blast+
      then show "\<exists>c. make_card m = Inr c"
        using make_card_record [of m] by blast
    qed
    with t have n3: "n = min 3 (length meals)" by simp
    then have "take n meals = take 3 meals" by (simp add: min_def)
    with m len n3 show ?thesis by auto
  qed
  from n(1) m l3 rc full show ?thesis by blast
qed

theorem fetchRecipes_first_three_witness:
  "get_prop (JObj [(''meals'', JArr
          [JObj [(''strMeal'', JStr ''A''), (''idMeal'', JStr ''1'')],
           JObj [(''strMeal'', JStr ''B''), (''idMeal'', JStr ''2'')],
           JObj [(''strMeal'', JStr ''C''), (''idMeal'', JStr ''3'')],
           JObj [(''strMeal'', JStr ''D''), (''idMeal'', JStr ''4'')],
           JObj [(''strMeal'', JStr ''E''), (''idMeal'', JStr ''5'')],
           JObj [(''strMeal'', JStr ''F''), (''idMeal'', JStr ''6'')]])]) ''meals''
     = Inr (Some (JArr
          [JObj [(''strMeal'', JStr ''A''), (''idMeal'', JStr ''1'')],
           JObj [(''strMeal'', JStr ''B''), (''idMeal'', JStr ''2'')],
           JObj [(''strMeal'', JStr ''C''), (''idMeal'', JStr ''3'')],
           JObj [(''strMeal'', JStr ''D''), (''idMeal'', JStr ''4'')],
           JObj [(''strMeal'', JStr ''E''), (''idMeal'', JStr ''5'')],
           JObj [(''strMeal'', JStr ''F''), (''idMeal'', JStr ''6'')]]))
   \<and> recipesContainer (snd (fetchRecipes_resume (Str ''banana'')
        (Reply True (Parsed (JObj [(''meals'', JArr
          [JObj [(''strMeal'', JStr ''A''), (''idMeal'', JStr ''1'')],
           JObj [(''strMeal'', JStr ''B''), (''idMeal'', JStr ''2'')],
           JObj [(''strMeal'', JStr ''C''), (''idMeal'', JStr ''3'')],
           JObj [(''strMeal'', JStr ''D''), (''idMeal'', JStr ''4'')],
           JObj [(''strMeal'', JStr ''E''), (''idMeal'', JStr ''5'')],
           JObj [(''strMeal'', JStr ''F''), (''idMeal'', JStr ''6'')]])])))
        blank_page))
     = [\<lparr>img_src = None, img_alt = Some (JStr ''A''), title_text = Some (JStr ''A''),
          link_href_c = Some (JStr ''1'')\<rparr>,
        \<lparr>img_src = None, img_alt = Some (JStr ''B''), title_text = Some (JStr ''B''),
          link_href_c = Some (JStr ''2'')\<rparr>,
        \<lparr>img_src = None, img_alt = Some (JStr ''C''), title_text = Some (JStr ''C''),
          link_href_c = Some (JStr ''3'')\<rparr>]"
proof -
  let ?meals = "[JObj [(''strMeal'', JStr ''A''), (''idMeal'', JStr ''1'')],
           JObj [(''strMeal'', JStr ''B''), (''idMeal'', JStr ''2'')],
           JObj [(''strMeal'', JStr ''C''), (''idMeal'', JStr ''3'')],
           JObj [(''strMeal'', JStr ''D''), (''idMeal'', JStr ''4'')],
           JObj [(''strMeal'', JStr ''E''), (''idMeal'', JStr ''5'')],
           JObj [(''strMeal'', JStr ''F''), (''idMeal'', JStr ''6'')]]"
  let ?data = "JObj [(''meals'', JArr ?meals)]"
  have h: "get_prop ?data ''meals'' = Inr (Some (JArr ?meals))"
    by simp
  from fetchRecipes_first_three [OF h, of "Str ''banana''" blank_page]
  obtain n :: nat and cards where
    rc: "recipesContainer (snd (fetchRecipes_resume (Str ''banana'')
           (Reply True (Parsed ?data)) blank_page)) = recipesContainer blank_page @ cards"
    and full: "(\<forall>meal \<in> set (take 3 ?meals). meal \<noteq> JNull
            \<and> (\<forall>key \<in> {''strMealThumb'', ''strMeal'', ''idMeal''}.
                  \<forall>v. get_prop meal key = Inr (Some v) \<longrightarrow> converts v)) \<longrightarrow>
          map make_card (take 3 ?meals) = map Inr cards"
    by blast
  have "(\<forall>meal \<in> set (take 3 ?meals). meal \<noteq> JNull
          \<and> (\<forall>key \<in> {''strMealThumb'', ''strMeal'', ''idMeal''}.
                \<forall>v. get_prop meal key = Inr (Some v) \<longrightarrow> converts v))"
    by (simp add: numeral_3_eq_3)
  with full have "map make_card (take 3 ?meals) = map Inr cards"
    by blast
  then have "map Inr cards =
       [Inr \<lparr>img_src = None, img_alt = Some (JStr ''A''), title_text = Some (JStr ''A''),
          link_href_c = Some (JStr ''1'')\<rparr>,
        Inr \<lparr>img_src = None, img_alt = Some (JStr ''B''), title_text = Some (JStr ''B''),
          link_href_c = Some (JStr ''2'')\<rparr>,
        Inr \<lparr>img_src = None, img_alt = Some (JStr ''C''), title_text = Some (JStr ''C''),
          link_href_c = Some (JStr ''3'')\<rparr> :: exn + card]"
    by (simp add: numeral_3_eq_3 make_card_def convert_def)
  then have "cards =
       [\<lparr>img_src = None, img_alt = Some (JStr ''A''), title_text = Some (JStr ''A''),
          link_href_c = Some (JStr ''1'')\<rparr>,
        \<lparr>img_src = None, img_alt = Some (JStr ''B''), title_text = Some (JStr ''B''),
          link_href_c = Some (JStr ''2'')\<rparr>,
        \<lparr>img_src = None, img_alt = Some (JStr ''C''), title_text = Some (JStr ''C''),
          link_href_c = Some (JStr ''3'')\<rparr>]"
    by auto
  with rc h show ?thesis by (simp add: blank_page_def)
qed

text \<open>
  Claim C5: when the request of an ingredient fails (\<open>fetch\<close> rejects, the status is
  not a success, or the body does not parse), the fetcher logs the error, appends no
  card and lets no exception leave. The failure leaves the analyze control as it is,
  enabled after the handler has run, and the fetch of another ingredient that
  completes afterwards lets no exception leave either and gives the cards that it gives
  without the failure.
\<close>

theorem fetchRecipes_failure_contained:
  assumes "r = NoReply \<or> r = Reply False b \<or> r = Reply True Unparsable"
  shows "(\<exists>error. fetchRecipes_resume i r s =
            (None, s\<lparr>fetching := remove1 i (fetching s),
                      console := console s @ [ErrorFetching error]\<rparr>))
     \<and> fst (fetchRecipes_resume i r s) = None
     \<and> recipesContainer (snd (fetchRecipes_resume i r s)) = recipesContainer s
     \<and> btn_disabled (snd (fetchRecipes_resume i r s)) = btn_disabled s
     \<and> btn_text (snd (fetchRecipes_resume i r s)) = btn_text s
     \<and> \<not> btn_disabled (snd (fetchRecipes_resume i r (img_onload_resume predictions s)))
     \<and> fst (fetchRecipes_resume j r' (snd (fetchRecipes_resume i r s))) = None
     \<and> recipesContainer (snd (fetchRecipes_resume j r' (snd (fetchRecipes_resume i r s))))
         = recipesContainer (snd (fetchRecipes_resume j r' s))"
proof -
  from assms obtain error where
    fail: "\<And>s. fetchRecipes_resume i r s =
            (None, s\<lparr>fetching := remove1 i (fetching s),
                      console := console s @ [ErrorFetching error]\<rparr>)"
    using fetchRecipes_resume_failure by blast
  from fetchRecipes_resume_shape [of j r'] obtain cards logs where
    other: "\<And>s. fetchRecipes_resume j r' s
            = (None, s\<lparr>fetching := remove1 j (fetching s),
                       recipesContainer := recipesContainer s @ cards,
                       console := console s @ logs\<rparr>)"
    by blast
  have "\<exists>error. fetchRecipes_resume i r s =
            (None, s\<lparr>fetching := remove1 i (fetching s),
                      console := console s @ [ErrorFetching error]\<rparr>)"
    using fail by blast
  moreover have "fst (fetchRecipes_resume i r s) = None"
    by (simp add: fail)
  moreover have "recipesContainer (snd (fetchRecipes_resume i r s)) = recipesContainer s"
    by (simp add: fail)
  moreover have "btn_disabled (snd (fetchRecipes_resume i r s)) = btn_disabled s"
    by (simp add: fail)
  moreover have "btn_text (snd (fetchRecipes_resume i r s)) = btn_text s"
    by (simp add: fail)
  moreover have
    "\<not> btn_disabled (snd (fetchRecipes_resume i r (img_onload_resume predictions s)))"
    by (simp add: fail img_onload_resume_enabled)
  moreover have "fst (fetchRecipes_resume j r' (snd (fetchRecipes_resume i r s))) = None"
    by (simp add: other)
  moreover have
    "recipesContainer (snd (fetchRecipes_resume j r' (snd (fetchRecipes_resume i r s))))
       = recipesContainer (snd (fetchRecipes_resume j r' s))"
    by (simp add: other fail)
  ultimately show ?thesis by blast
qed

theorem fetchRecipes_failure_contained_witness:
  "fetchRecipes_resume (Str ''banana'') (Reply False Unparsable)
     (img_onload_resume [\<lparr>className = ''banana'', probability = Fin 0.9\<rparr>] blank_page)
   = (None,
      \<lparr>model = False, files = [], btn_disabled = False, btn_text = ''Analyze Ingredients'',
       ingredientList = [Str ''banana''], recipesContainer = [], alerts = [],
       console = [ErrorFetching ApiRequestFailed],
       loading = 0, classifying = 0, requests = [Str ''banana''], fetching = []\<rparr>)"
proof -
  have h: "Reply False Unparsable = NoReply \<or> Reply False Unparsable = Reply False Unparsable
         \<or> Reply False Unparsable = Reply True Unparsable"
    by simp
  have r: "resolve [\<lparr>className = ''banana'', probability = Fin 0.9\<rparr>] = [Str ''banana'']"
    by (simp add: resolve_def add_prediction_def split_comma_def add_part_def trim_def
        is_space_def ingredientMap_get_def ingredientMap_def object_prototype_def
        set_add_def threshold_def)
  from fetchRecipes_failure_contained [OF h, of "Str ''banana''"
      "img_onload_resume [\<lparr>className = ''banana'', probability = Fin 0.9\<rparr>] blank_page"]
  obtain error where
    "fetchRecipes_resume (Str ''banana'') (Reply False Unparsable)
       (img_onload_resume [\<lparr>className = ''banana'', probability = Fin 0.9\<rparr>] blank_page)
     = (None, (img_onload_resume [\<lparr>className = ''banana'', probability = Fin 0.9\<rparr>] blank_page)
        \<lparr>fetching := remove1 (Str ''banana'')
            (fetching (img_onload_resume [\<lparr>className = ''banana'', probability = Fin 0.9\<rparr>] blank_page)),
         console := console (img_onload_resume [\<lparr>className = ''banana'', probability = Fin 0.9\<rparr>] blank_page)
            @ [ErrorFetching error]\<rparr>)"
    by blast
  moreover have "fetchRecipes_resume (Str ''banana'') (Reply False Unparsable)
       (img_onload_resume [\<lparr>className = ''banana'', probability = Fin 0.9\<rparr>] blank_page)
     = (None, (img_onload_resume [\<lparr>className = ''banana'', probability = Fin 0.9\<rparr>] blank_page)
        \<lparr>fetching := remove1 (Str ''banana'')
            (fetching (img_onload_resume [\<lparr>className = ''banana'', probability = Fin 0.9\<rparr>] blank_page)),
         console := console (img_onload_resume [\<lparr>className = ''banana'', probability = Fin 0.9\<rparr>] blank_page)
            @ [ErrorFetching ApiRequestFailed]\<rparr>)"
    by (simp add: fetchRecipes_resume_failure)
  ultimately show ?thesis
    by (simp add: img_onload_resume_nonempty r blank_page_def)
qed

text \<open>
  Claim C9: a successful response whose \<open>meals\<close> is missing or falsy (the service
  sends \<open>null\<close> for no results) makes the fetcher append no card and log that no
  recipes were found; no exception leaves.
\<close>

theorem fetchRecipes_no_results:
  assumes "get_prop data ''meals'' = Inr meals" and "\<not> json_truthy meals"
  shows "fetchRecipes_resume i (Reply True (Parsed data)) s =
           (None, s\<lparr>fetching := remove1 i (fetching s),
                     console := console s @ [LogNoRecipes i]\<rparr>)
     \<and> fst (fetchRecipes_resume i (Reply True (Parsed data)) s) = None
     \<and> recipesContainer (snd (fetchRecipes_resume i (Reply True (Parsed data)) s))
         = recipesContainer s
     \<and> console (snd (fetchRecipes_resume i (Reply True (Parsed data)) s))
         = console s @ [LogNoRecipes i]"
  by (simp add: fetchRecipes_resume_no_results [OF assms])

theorem fetchRecipes_no_results_witness:
  "get_prop (JObj [(''meals'', JNull)]) ''meals'' = Inr (Some JNull)
   \<and> \<not> json_truthy (Some JNull)
   \<and> fetchRecipes_resume (Str ''egg'') (Reply True (Parsed (JObj [(''meals'', JNull)])))
       (blank_page\<lparr>fetching := [Str ''egg'']\<rparr>)
     = (None, blank_page\<lparr>console := [LogNoRecipes (Str ''egg'')]\<rparr>)"
proof -
  have h1: "get_prop (JObj [(''meals'', JNull)]) ''meals'' = Inr (Some JNull)"
    by simp
  have h2: "\<not> json_truthy (Some JNull)"
    by simp
  show ?thesis
    using h1 h2 fetchRecipes_no_results [OF h1 h2, of "Str ''egg''"
        "blank_page\<lparr>fetching := [Str ''egg'']\<rparr>"]
    by (simp add: blank_page_def)
qed

section \<open>Properties of the analyze handler\<close>

lemma analyze_click_rejected:
  "\<not> model s \<or> files s = [] \<Longrightarrow>
   analyze_click s =
   s\<lparr>alerts := alerts s @
       [if \<not> model s then ''Model not loaded yet, please wait.''
        else ''Please upload an image first.'']\<rparr>"
  by (auto simp: analyze_click_def split: list.splits)

lemma analyze_click_accepted:
  "model s \<Longrightarrow> files s \<noteq> [] \<Longrightarrow>
   analyze_click s =
   s\<lparr>ingredientList := [], recipesContainer := [], btn_disabled := True,
     btn_text := ''Analyzing...'', loading := loading s + 1\<rparr>"
  by (auto simp: analyze_click_def split: list.splits)

text \<open>
  Claim C6: when the resolved set is empty, the handler shows exactly the placeholder
  \<open>No recognizable ingredients found.\<close>, adds no recipe card, issues no fetch,
  enables the analyze control and resets its label. After an accepted click the
  recipe container is then empty.
\<close>

theorem empty_set_shows_placeholder:
  assumes "resolve predictions = []"
  shows "ingredientList (img_onload_resume predictions s)
           = [Str ''No recognizable ingredients found.'']
     \<and> recipesContainer (img_onload_resume predictions s) = recipesContainer s
     \<and> requests (img_onload_resume predictions s) = requests s
     \<and> fetching (img_onload_resume predictions s) = fetching s
     \<and> \<not> btn_disabled (img_onload_resume predictions s)
     \<and> btn_text (img_onload_resume predictions s) = ''Analyze Ingredients''
     \<and> (model s \<and> files s \<noteq> [] \<longrightarrow>
          recipesContainer (img_onload_resume predictions (img_onload_start (analyze_click s)))
            = [])"
  by (simp add: img_onload_resume_empty [OF assms] img_onload_start_def
      analyze_click_accepted)

theorem empty_set_shows_placeholder_witness:
  "resolve [\<lparr>className = ''lemon'', probability = Fin 0.1\<rparr>] = []
   \<and> img_onload_resume [\<lparr>className = ''lemon'', probability = Fin 0.1\<rparr>]
       (img_onload_start (analyze_click (blank_page\<lparr>model := True, files := [''photo'']\<rparr>)))
     = blank_page\<lparr>model := True, files := [''photo''],
         ingredientList := [Str ''No recognizable ingredients found.''],
         btn_text := ''Analyze Ingredients''\<rparr>"
proof -
  have h: "resolve [\<lparr>className = ''lemon'', probability = Fin 0.1\<rparr>] = []"
    by (simp add: resolve_def add_prediction_def split_comma_def add_part_def threshold_def)
  have "img_onload_resume [\<lparr>className = ''lemon'', probability = Fin 0.1\<rparr>]
       (img_onload_start (analyze_click (blank_page\<lparr>model := True, files := [''photo'']\<rparr>)))
     = blank_page\<lparr>model := True, files := [''photo''],
         ingredientList := ingredientList (img_onload_resume [\<lparr>className = ''lemon'', probability = Fin 0.1\<rparr>]
       (img_onload_start (analyze_click (blank_page\<lparr>model := True, files := [''photo'']\<rparr>)))),
         btn_text := ''Analyze Ingredients''\<rparr>"
    by (simp add: img_onload_resume_def h img_onload_start_def analyze_click_def blank_page_def)
  with h show ?thesis
    using empty_set_shows_placeholder [OF h,
        of "img_onload_start (analyze_click (blank_page\<lparr>model := True, files := [''photo'']\<rparr>))"]
    by simp
qed

text \<open>
  Claim C7: when the resolved set is not empty, the handler ends with the control
  enabled and its label reset, with one fetch issued for each ingredient and every one
  of them still in flight: no reply is awaited and no card has been appended. A reply
  that arrives afterwards with a recipe record (its fields convert to strings) appends
  its card while the control is enabled.
\<close>

theorem control_enabled_before_fetches_complete:
  assumes "resolve predictions \<noteq> []"
    and "\<forall>key \<in> {''strMealThumb'', ''strMeal'', ''idMeal''}.
            \<forall>v. map_of props key = Some v \<longrightarrow> converts v"
  shows "\<not> btn_disabled (img_onload_resume predictions s)
     \<and> btn_text (img_onload_resume predictions s) = ''Analyze Ingredients''
     \<and> requests (img_onload_resume predictions s) = requests s @ resolve predictions
     \<and> fetching (img_onload_resume predictions s) = fetching s @ resolve predictions
     \<and> ingredientList (img_onload_resume predictions s)
         = ingredientList s @ resolve predictions
     \<and> recipesContainer (img_onload_resume predictions s) = recipesContainer s
     \<and> (\<forall>i \<in> set (resolve predictions).
          i \<in> set (fetching (img_onload_resume predictions s))
          \<and> \<not> btn_disabled (snd (fetchRecipes_resume i
                 (Reply True (Parsed (JObj [(''meals'', JArr [JObj props])])))
                 (img_onload_resume predictions s)))
          \<and> recipesContainer (snd (fetchRecipes_resume i
                 (Reply True (Parsed (JObj [(''meals'', JArr [JObj props])])))
                 (img_onload_resume predictions s)))
             = recipesContainer s @
               [\<lparr>img_src = map_of props ''strMealThumb'', img_alt = map_of props ''strMeal'',
                 title_text = map_of props ''strMeal'',
                 link_href_c = map_of props ''idMeal''\<rparr>])"
proof -
  have "\<forall>key \<in> {''strMealThumb'', ''strMeal'', ''idMeal''}.
          \<forall>v. get_prop (JObj props) key = Inr (Some v) \<longrightarrow> converts v"
    using assms(2) by simp
  then have card: "make_card (JObj props) =
      Inr \<lparr>img_src = map_of props ''strMealThumb'', img_alt = map_of props ''strMeal'',
           title_text = map_of props ''strMeal'', link_href_c = map_of props ''idMeal''\<rparr>"
    using make_card_record [of "JObj props"] by simp
  show ?thesis
    by (simp add: img_onload_resume_nonempty [OF assms(1)] fetchRecipes_resume_def
        fetchRecipes_try_def card numeral_3_eq_3)
qed

theorem control_enabled_before_fetches_complete_witness:
  "resolve [\<lparr>className = ''banana'', probability = Fin 0.9\<rparr>] \<noteq> []
   \<and> img_onload_resume [\<lparr>className = ''banana'', probability = Fin 0.9\<rparr>]
       (blank_page\<lparr>btn_disabled := True\<rparr>)
     = blank_page\<lparr>btn_text := ''Analyze Ingredients'', ingredientList := [Str ''banana''],
         requests := [Str ''banana''], fetching := [Str ''banana'']\<rparr>
   \<and> snd (fetchRecipes_resume (Str ''banana'')
        (Reply True (Parsed (JObj [(''meals'', JArr [JObj [(''strMeal'', JStr ''Pie'')]])])))
        (img_onload_resume [\<lparr>className = ''banana'', probability = Fin 0.9\<rparr>]
          (blank_page\<lparr>btn_disabled := True\<rparr>)))
     = blank_page\<lparr>btn_text := ''Analyze Ingredients'', ingredientList := [Str ''banana''],
         requests := [Str ''banana''],
         recipesContainer :=
           [\<lparr>img_src = None, img_alt = Some (JStr ''Pie''), title_text = Some (JStr ''Pie''),
             link_href_c = None\<rparr>]\<rparr>"
proof -
  have r: "resolve [\<lparr>className = ''banana'', probability = Fin 0.9\<rparr>] = [Str ''banana'']"
    by (simp add: resolve_def add_prediction_def split_comma_def add_part_def trim_def
        is_space_def ingredientMap_get_def ingredientMap_def object_prototype_def
        set_add_def threshold_def)
  then have h: "resolve [\<lparr>className = ''banana'', probability = Fin 0.9\<rparr>] \<noteq> []"
    by simp
  have p: "\<forall>key \<in> {''strMealThumb'', ''strMeal'', ''idMeal''}.
            \<forall>v. map_of [(''strMeal'', JStr ''Pie'')] key = Some v \<longrightarrow> converts v"
    by simp
  have a: "img_onload_resume [\<lparr>className = ''banana'', probability = Fin 0.9\<rparr>]
       (blank_page\<lparr>btn_disabled := True\<rparr>)
     = blank_page\<lparr>btn_text := ''Analyze Ingredients'', ingredientList := [Str ''banana''],
         requests := [Str ''banana''], fetching := [Str ''banana'']\<rparr>"
    by (simp add: img_onload_resume_nonempty [OF h] r blank_page_def)
  have b: "snd (fetchRecipes_resume (Str ''banana'')
        (Reply True (Parsed (JObj [(''meals'', JArr [JObj [(''strMeal'', JStr ''Pie'')]])])))
        (blank_page\<lparr>btn_text := ''Analyze Ingredients'', ingredientList := [Str ''banana''],
         requests := [Str ''banana''], fetching := [Str ''banana'']\<rparr>))
     = blank_page\<lparr>btn_text := ''Analyze Ingredients'', ingredientList := [Str ''banana''],
         requests := [Str ''banana''],
         recipesContainer :=
           [\<lparr>img_src = None, img_alt = Some (JStr ''Pie''), title_text = Some (JStr ''Pie''),
             link_href_c = None\<rparr>]\<rparr>"
    by (simp add: fetchRecipes_resume_def fetchRecipes_try_def make_card_def convert_def
        numeral_3_eq_3 blank_page_def)
  show ?thesis
    using h a b control_enabled_before_fetches_complete [OF h p,
        of "blank_page\<lparr>btn_disabled := True\<rparr>"]
    by simp
qed

text \<open>
  Claim C8: a click while the model is not loaded, or while no image is selected, shows
  a notice and does nothing else: the control keeps its state, no image load is
  started (so no classification and no resolution follow), and no fetch is issued.
\<close>

theorem rejected_click_only_notifies:
  assumes "\<not> model s \<or> files s = []"
  shows "analyze_click s =
           s\<lparr>alerts := alerts s @
               [if \<not> model s then ''Model not loaded yet, please wait.''
                else ''Please upload an image first.'']\<rparr>
     \<and> btn_disabled (analyze_click s) = btn_disabled s
     \<and> btn_text (analyze_click s) = btn_text s
     \<and> loading (analyze_click s) = loading s
     \<and> classifying (analyze_click s) = classifying s
     \<and> requests (analyze_click s) = requests s
     \<and> fetching (analyze_click s) = fetching s"
  by (simp add: analyze_click_rejected [OF assms])

theorem rejected_click_only_notifies_witness:
  "\<not> model blank_page
   \<and> analyze_click blank_page
       = blank_page\<lparr>alerts := [''Model not loaded yet, please wait.'']\<rparr>
   \<and> files (blank_page\<lparr>model := True\<rparr>) = []
   \<and> analyze_click (blank_page\<lparr>model := True\<rparr>)
       = blank_page\<lparr>model := True, alerts := [''Please upload an image first.'']\<rparr>"
proof -
  have h1: "\<not> model blank_page \<or> files blank_page = []"
    by (simp add: blank_page_def)
  have h2: "\<not> model (blank_page\<lparr>model := True\<rparr>) \<or> files (blank_page\<lparr>model := True\<rparr>) = []"
    by (simp add: blank_page_def)
  show ?thesis
    using h1 rejected_click_only_notifies [OF h1] rejected_click_only_notifies [OF h2]
    by (simp add: blank_page_def)
qed

text \<open>
  Claim C10: a rejected click leaves the ingredient list and the recipe cards as they
  are; both are cleared exactly when both checks pass.
\<close>

theorem displays_cleared_only_after_checks:
  "(\<not> model s \<or> files s = [] \<longrightarrow>
      ingredientList (analyze_click s) = ingredientList s
      \<and> recipesContainer (analyze_click s) = recipesContainer s)
   \<and> (model s \<and> files s \<noteq> [] \<longrightarrow>
      ingredientList (analyze_click s) = []
      \<and> recipesContainer (analyze_click s) = [])"
  by (simp add: analyze_click_rejected analyze_click_accepted)

theorem displays_cleared_only_after_checks_witness:
  "ingredientList (analyze_click (blank_page\<lparr>ingredientList := [Str ''egg'']\<rparr>))
     = [Str ''egg'']
   \<and> ingredientList (analyze_click
        (blank_page\<lparr>model := True, ingredientList := [Str ''egg'']\<rparr>))
     = [Str ''egg'']
   \<and> ingredientList (analyze_click
        (blank_page\<lparr>model := True, files := [''photo''], ingredientList := [Str ''egg'']\<rparr>))
     = []
   \<and> recipesContainer (analyze_click
        (blank_page\<lparr>model := True, files := [''photo''], ingredientList := [Str ''egg'']\<rparr>))
     = []"
  using displays_cleared_only_after_checks
          [of "blank_page\<lparr>ingredientList := [Str ''egg'']\<rparr>"]
        displays_cleared_only_after_checks
          [of "blank_page\<lparr>model := True, ingredientList := [Str ''egg'']\<rparr>"]
        displays_cleared_only_after_checks
          [of "blank_page\<lparr>model := True, files := [''photo''],
                 ingredientList := [Str ''egg'']\<rparr>"]
  by (simp add: blank_page_def)

end
